theory Spec2Isabelle
  imports Main "HOL-Library.Word"
begin

section \<open>Data model (main.go, lines 16-118)\<close>

text \<open>
  Go strings are byte sequences and \<open>len\<close> counts bytes: they are modelled as
  \<open>string\<close>, a list of 8-bit characters. Go's \<open>int\<close> is taken at its 64-bit width
  (amd64, arm64) and read as a signed number with \<open>sint\<close>. The floating point
  fields are never inspected by the program; they are carried as their IEEE-754
  bit patterns. A record field is prefixed with a short form of its struct's name
  where two structs of the program share a field name.
\<close>

type_synonym go_int = "64 word"
type_synonym float64 = "64 word"
type_synonym float32 = "32 word"

text \<open>An \<open>interface{}\<close> value: \<open>nil\<close> is \<open>None\<close>; a boxed value is kept as its JSON text.\<close>
type_synonym go_interface = "string option"

text \<open>A value of Go's \<open>error\<close> interface, identified with the message \<open>err.Error()\<close> returns.\<close>
type_synonym go_error = string

record openAIChatMessage =
  Role :: string
  Content :: string

record openAIChatRequest =
  chatReq_Model :: string
  chatReq_Messages :: "openAIChatMessage list"

record openAICompletionRequest =
  compReq_Model :: string
  compReq_Prompt :: string
  MaxTokens :: go_int
  Temperature :: float64
  TopP :: float64
  N :: go_int
  Stream :: bool
  compReq_Logprobs :: "go_int option"
  Stop :: "string list"

record generation =
  WorkerID :: string
  WorkerName :: string
  gen_Model :: string
  State :: string
  Text :: string
  Seed :: go_int

record openAIUsage =
  PromptTokens :: go_int
  CompletionTokens :: go_int
  TotalTokens :: go_int

record openAIChatChoice =
  chatChoice_Index :: go_int
  Message :: openAIChatMessage
  chatChoice_FinishReason :: string

record openAIChatResponse =
  chatResp_ID :: string
  chatResp_Object :: string
  chatResp_Created :: go_int
  chatResp_Choices :: "openAIChatChoice list"
  chatResp_Usage :: openAIUsage

record openAICompletionChoice =
  compChoice_Text :: string
  compChoice_Index :: go_int
  compChoice_Logprobs :: go_interface
  compChoice_FinishReason :: string

record openAICompletionResponse =
  compResp_ID :: string
  compResp_Object :: string
  compResp_Created :: go_int
  compResp_Model :: string
  compResp_Choices :: "openAICompletionChoice list"
  compResp_Usage :: openAIUsage

record params =
  MaxContextLength :: go_int
  MaxLength :: go_int

record koboldAIRequest =
  Prompt :: string
  Models :: "string list"
  TrustedWorkers :: bool
  Params :: params

record koboldAIPollResponse =
  Finished :: go_int
  Processing :: go_int
  Restarted :: go_int
  Waiting :: go_int
  Done :: bool
  Faulted :: bool
  WaitTime :: go_int
  QueuePosition :: go_int
  Kudos :: float32
  IsPossible :: bool
  Generations :: "generation list"

record koboldAIAsyncResponse =
  async_ID :: string
  async_Message :: string

definition koboldAPIURL :: string where
  "koboldAPIURL = ''https://horde.koboldai.net/api/v2/generate/text/async''"

definition koboldStatusURL :: string where
  "koboldStatusURL = ''https://horde.koboldai.net/api/v2/generate/text/status/''"

definition defaultAPIKey :: string where
  "defaultAPIKey = ''0000000000''"

section \<open>Go primitives used by the program\<close>

text \<open>
  Indexing a slice out of range panics with
  \<open>runtime error: index out of range [i] with length n\<close>.
\<close>

datatype panic = IndexOutOfRange nat nat

definition index :: "'a list \<Rightarrow> nat \<Rightarrow> panic + 'a" where
  "index xs i = (if i < length xs then Inr (xs ! i) else Inl (IndexOutOfRange i (length xs)))"

text \<open>Sequencing of computations that may panic: a panic ends the function.\<close>

definition and_then :: "panic + 'a \<Rightarrow> ('a \<Rightarrow> panic + 'b) \<Rightarrow> panic + 'b" where
  "and_then m f = (case m of Inl p \<Rightarrow> Inl p | Inr x \<Rightarrow> f x)"

definition len :: "string \<Rightarrow> go_int" where
  "len s = of_nat (length s)"

text \<open>\<open>strings.TrimPrefix\<close>: the string without the prefix, or the string itself.\<close>

fun strip_prefix :: "string \<Rightarrow> string \<Rightarrow> string option" where
  "strip_prefix [] s = Some s"
| "strip_prefix (p # ps) [] = None"
| "strip_prefix (p # ps) (c # cs) = (if p = c then strip_prefix ps cs else None)"

definition TrimPrefix :: "string \<Rightarrow> string \<Rightarrow> string" where
  "TrimPrefix s prefix = (case strip_prefix prefix s of Some rest \<Rightarrow> rest | None \<Rightarrow> s)"

definition StatusBadRequest :: nat where
  "StatusBadRequest = 400"

definition StatusInternalServerError :: nat where
  "StatusInternalServerError = 500"

section \<open>Schema mapper (main.go, lines 188-215 and 300-350)\<close>

text \<open>The \<open>range\<close> loop of \<open>convertOpenAIChatRequestToKobold\<close>, with the prompt built so far.\<close>

fun append_messages :: "string \<Rightarrow> openAIChatMessage list \<Rightarrow> string" where
  "append_messages prompt [] = prompt"
| "append_messages prompt (message # rest) =
     append_messages (prompt @ Role message @ '': '' @ Content message @ [CHR 0x0A]) rest"

definition convertOpenAIChatRequestToKobold :: "openAIChatRequest \<Rightarrow> koboldAIRequest" where
  "convertOpenAIChatRequestToKobold chatReq =
     (let prompt = append_messages '''' (chatReq_Messages chatReq)
      in \<lparr>Prompt = prompt,
          Models = [chatReq_Model chatReq],
          TrustedWorkers = False,
          Params = \<lparr>MaxContextLength = 1024, MaxLength = 100\<rparr>\<rparr>)"

definition convertOpenAICompletionRequestToKobold :: "openAICompletionRequest \<Rightarrow> koboldAIRequest" where
  "convertOpenAICompletionRequestToKobold completionReq =
     \<lparr>Prompt = compReq_Prompt completionReq,
      Models = [compReq_Model completionReq],
      TrustedWorkers = False,
      Params = \<lparr>MaxContextLength = 1024, MaxLength = MaxTokens completionReq\<rparr>\<rparr>"

text \<open>
  The two response conversions read the clock and draw a UUID. Both values come from
  outside the program, so they are arguments here: \<open>uid\<close> is \<open>id.String()\<close> and
  \<open>now\<close> is \<open>int(time.Now().Unix())\<close>. Every \<open>Generations[0]\<close> of the source is an
  \<open>index\<close> of the model, in the order the source evaluates them.
\<close>

definition convertKoboldResponseToOpenAIChatResponse ::
  "string \<Rightarrow> go_int \<Rightarrow> koboldAIPollResponse \<Rightarrow> panic + openAIChatResponse" where
  "convertKoboldResponseToOpenAIChatResponse uid now koboldResp =
     and_then (index (Generations koboldResp) 0) (\<lambda>g0.
       let responseText = Text g0;
           assistantMessage = \<lparr>Role = ''assistant'', Content = responseText\<rparr>
       in and_then (index (Generations koboldResp) 0) (\<lambda>g1.
          and_then (index (Generations koboldResp) 0) (\<lambda>g2.
            Inr \<lparr>chatResp_ID = uid,
                 chatResp_Object = ''chat.completion'',
                 chatResp_Created = now,
                 chatResp_Choices =
                   [\<lparr>chatChoice_Index = 0,
                     Message = assistantMessage,
                     chatChoice_FinishReason = ''stop''\<rparr>],
                 chatResp_Usage =
                   \<lparr>PromptTokens = len (Text g1),
                    CompletionTokens = len responseText,
                    TotalTokens = len (Text g2) + len responseText\<rparr>\<rparr>)))"

definition convertKoboldResponseToOpenAICompletionResponse ::
  "string \<Rightarrow> go_int \<Rightarrow> koboldAIPollResponse \<Rightarrow> panic + openAICompletionResponse" where
  "convertKoboldResponseToOpenAICompletionResponse uid now koboldResp =
     and_then (index (Generations koboldResp) 0) (\<lambda>g0.
       let responseText = Text g0
       in Inr \<lparr>compResp_ID = uid,
               compResp_Object = ''text.completion'',
               compResp_Created = now,
               compResp_Model = ''davinci-codex'',
               compResp_Choices =
                 [\<lparr>compChoice_Text = responseText,
                   compChoice_Index = 0,
                   compChoice_Logprobs = None,
                   compChoice_FinishReason = ''stop''\<rparr>],
               compResp_Usage =
                 \<lparr>PromptTokens = 0, CompletionTokens = 0, TotalTokens = 0\<rparr>\<rparr>)"

section \<open>Downstream client (main.go, lines 217-298)\<close>

text \<open>
  What the program does to the outside world is recorded as a trace of events, in
  program order: the pauses and HTTP requests of the client, and the calls the
  handlers make on their response writer. Writes to standard output and standard
  error are logging and are left out, and so is the closing of response bodies.
\<close>

datatype event =
    Sleep nat
  | POST string "(string \<times> string) list" string
  | GET string
  | Header_Set string string
  | http_Error string nat
  | Encode_chat openAIChatResponse
  | Encode_completion openAICompletionResponse

text \<open>
  The outcome of the submit request: \<open>client.Do\<close> fails, or the body of its response
  does not decode, or it decodes. The same for one status request.
\<close>

datatype post_outcome =
    PostFailed go_error
  | PostUndecodable go_error
  | PostDecoded koboldAIAsyncResponse

datatype get_outcome =
    GetFailed go_error
  | GetUndecodable go_error
  | GetDecoded koboldAIPollResponse

text \<open>
  The surroundings of one request: the results of the library calls the program
  cannot determine itself. \<open>status_GET w i url\<close> is the outcome of the \<open>i\<close>-th status
  request (counted from 0) of the poll loop.
\<close>

record world =
  decode_chat :: "string \<Rightarrow> go_error + openAIChatRequest"
  decode_completion :: "string \<Rightarrow> go_error + openAICompletionRequest"
  json_Marshal :: "koboldAIRequest \<Rightarrow> go_error + string"
  http_NewRequest :: "string \<Rightarrow> string \<Rightarrow> string \<Rightarrow> go_error option"
  client_Do :: "string \<Rightarrow> (string \<times> string) list \<Rightarrow> string \<Rightarrow> post_outcome"
  status_GET :: "nat \<Rightarrow> string \<Rightarrow> get_outcome"
  uuid_String :: string
  time_Unix :: go_int

text \<open>
  The \<open>for\<close> loop of \<open>pollKoboldAPI\<close> has no bound: it is a partial function, \<open>None\<close>
  where the loop never returns. \<open>i\<close> counts the status requests made so far and
  \<open>tr\<close> is the trace so far.
\<close>

partial_function (option) poll_loop ::
  "(nat \<Rightarrow> string \<Rightarrow> get_outcome) \<Rightarrow> string \<Rightarrow> nat \<Rightarrow> event list \<Rightarrow>
     ((go_error + koboldAIPollResponse) \<times> event list) option" where
  "poll_loop gets statusEndpoint i tr =
     (let tr' = tr @ [Sleep 2, GET statusEndpoint]
      in case gets i statusEndpoint of
           GetFailed err \<Rightarrow> Some (Inl err, tr')
         | GetUndecodable err \<Rightarrow> Some (Inl err, tr')
         | GetDecoded jsonResponse \<Rightarrow>
             if Done jsonResponse then Some (Inr jsonResponse, tr')
             else poll_loop gets statusEndpoint (Suc i) tr')"

declare poll_loop.simps [code]

definition pollKoboldAPI ::
  "world \<Rightarrow> string \<Rightarrow> event list \<Rightarrow> ((go_error + koboldAIPollResponse) \<times> event list) option" where
  "pollKoboldAPI w ident tr = poll_loop (status_GET w) (koboldStatusURL @ ident) 0 tr"

definition callKoboldAPI ::
  "world \<Rightarrow> koboldAIRequest \<Rightarrow> string \<Rightarrow> event list \<Rightarrow>
     ((go_error + koboldAIPollResponse) \<times> event list) option" where
  "callKoboldAPI w koboldReq apiKey tr =
     (case json_Marshal w koboldReq of
        Inl err \<Rightarrow> Some (Inl err, tr)
      | Inr reqBody \<Rightarrow>
         (case http_NewRequest w ''POST'' koboldAPIURL reqBody of
            Some err \<Rightarrow> Some (Inl err, tr)
          | None \<Rightarrow>
             (let headers = [(''Content-Type'', ''application/json''), (''apikey'', apiKey)];
                  tr' = tr @ [POST koboldAPIURL headers reqBody]
              in case client_Do w koboldAPIURL headers reqBody of
                   PostFailed err \<Rightarrow> Some (Inl err, tr')
                 | PostUndecodable err \<Rightarrow> Some (Inl err, tr')
                 | PostDecoded jsonResponse \<Rightarrow>
                    (case pollKoboldAPI w (async_ID jsonResponse) tr' of
                       None \<Rightarrow> None
                     | Some (Inl err, tr'') \<Rightarrow> Some (Inl err, tr'')
                     | Some (Inr result, tr'') \<Rightarrow> Some (Inr result, tr'')))))"

section \<open>Request handlers (main.go, lines 129-186)\<close>

text \<open>
  A handler either returns or panics (the panic of a conversion is not recovered in
  the handler); \<open>None\<close> is a handler that never returns.
\<close>

datatype handler_end = Returned | Panicked panic

record http_request =
  Authorization :: string
  Body :: string

definition bearer_key :: "http_request \<Rightarrow> string" where
  "bearer_key r =
     (let apiKey = Authorization r
      in if apiKey = '''' then defaultAPIKey else TrimPrefix apiKey ''Bearer '')"

definition chatCompletionHandler :: "world \<Rightarrow> http_request \<Rightarrow> (handler_end \<times> event list) option" where
  "chatCompletionHandler w r =
     (let apiKey = bearer_key r
      in case decode_chat w (Body r) of
           Inl err \<Rightarrow> Some (Returned, [http_Error err StatusBadRequest])
         | Inr chatReq \<Rightarrow>
            (let koboldReq = convertOpenAIChatRequestToKobold chatReq
             in case callKoboldAPI w koboldReq apiKey [] of
                  None \<Rightarrow> None
                | Some (Inl err, tr) \<Rightarrow>
                    Some (Returned, tr @ [http_Error err StatusInternalServerError])
                | Some (Inr koboldResp, tr) \<Rightarrow>
                   (case convertKoboldResponseToOpenAIChatResponse
                           (uuid_String w) (time_Unix w) koboldResp of
                      Inl p \<Rightarrow> Some (Panicked p, tr)
                    | Inr chatResp \<Rightarrow>
                        Some (Returned,
                              tr @ [Header_Set ''Content-Type'' ''application/json'',
                                    Encode_chat chatResp]))))"

definition completionHandler :: "world \<Rightarrow> http_request \<Rightarrow> (handler_end \<times> event list) option" where
  "completionHandler w r =
     (let apiKey = bearer_key r
      in case decode_completion w (Body r) of
           Inl err \<Rightarrow> Some (Returned, [http_Error err StatusBadRequest])
         | Inr completionReq \<Rightarrow>
            (let koboldReq = convertOpenAICompletionRequestToKobold completionReq
             in case callKoboldAPI w koboldReq apiKey [] of
                  None \<Rightarrow> None
                | Some (Inl err, tr) \<Rightarrow>
                    Some (Returned, tr @ [http_Error err StatusInternalServerError])
                | Some (Inr koboldResp, tr) \<Rightarrow>
                   (case convertKoboldResponseToOpenAICompletionResponse
                           (uuid_String w) (time_Unix w) koboldResp of
                      Inl p \<Rightarrow> Some (Panicked p, tr)
                    | Inr completionResp \<Rightarrow>
                        Some (Returned, tr @ [Encode_completion completionResp]))))"

section \<open>Classification of events and concrete inputs\<close>

text \<open>The events of the downstream client, as opposed to those on the response writer.\<close>

fun downstream :: "event \<Rightarrow> bool" where
  "downstream (Sleep n) = True"
| "downstream (POST url headers body) = True"
| "downstream (GET url) = True"
| "downstream e = False"

text \<open>
  Concrete values for the worked examples: a generation with a given worker name and
  text, a job status with given flags and generations, the completion request
  \<open>{"model":"m","prompt":"Hi","max_tokens":50}\<close> with given sampling parameters, a
  poll script that answers a faulted, unfinished status first and a finished one
  afterwards, and surroundings built from a submit outcome and a poll script.
\<close>

definition generation_with :: "string \<Rightarrow> string \<Rightarrow> generation" where
  "generation_with worker text =
     \<lparr>WorkerID = ''w-1'', WorkerName = worker, gen_Model = ''m'', State = ''ok'',
      Text = text, Seed = 0\<rparr>"

definition status_with :: "bool \<Rightarrow> bool \<Rightarrow> generation list \<Rightarrow> koboldAIPollResponse" where
  "status_with done faulted gens =
     \<lparr>Finished = 0, Processing = 0, Restarted = 0, Waiting = 0, Done = done,
      Faulted = faulted, WaitTime = 0, QueuePosition = 0, Kudos = 0, IsPossible = True,
      Generations = gens\<rparr>"

definition completion_request_with ::
  "float64 \<Rightarrow> float64 \<Rightarrow> go_int \<Rightarrow> bool \<Rightarrow> go_int option \<Rightarrow> string list
     \<Rightarrow> openAICompletionRequest" where
  "completion_request_with temperature top_p n stream logprobs stop =
     \<lparr>compReq_Model = ''m'', compReq_Prompt = ''Hi'', MaxTokens = 50,
      Temperature = temperature, TopP = top_p, N = n, Stream = stream,
      compReq_Logprobs = logprobs, Stop = stop\<rparr>"

definition two_polls :: "nat \<Rightarrow> get_outcome" where
  "two_polls i =
     (if i = 0 then GetDecoded (status_with False True [])
      else GetDecoded (status_with True False [generation_with ''a'' ''World'']))"

definition accepted :: post_outcome where
  "accepted = PostDecoded \<lparr>async_ID = ''job'', async_Message = ''''\<rparr>"

definition example_world :: "post_outcome \<Rightarrow> (nat \<Rightarrow> get_outcome) \<Rightarrow> world" where
  "example_world post gets =
     \<lparr>decode_chat = (\<lambda>body.
        if body = ''chat body''
        then Inr \<lparr>chatReq_Model = ''m'',
                  chatReq_Messages = [\<lparr>Role = ''user'', Content = ''Hi''\<rparr>]\<rparr>
        else Inl ''unexpected end of JSON input''),
      decode_completion = (\<lambda>body.
        if body = ''completion body''
        then Inr (completion_request_with 0 0 0 False None [])
        else Inl ''unexpected end of JSON input''),
      json_Marshal = (\<lambda>req. Inr (Prompt req)),
      http_NewRequest = (\<lambda>method url body. None),
      client_Do = (\<lambda>url headers body. post),
      status_GET = (\<lambda>i url. gets i),
      uuid_String = ''id-1'',
      time_Unix = 1700000000\<rparr>"

section \<open>Basic facts\<close>

lemma index_nonempty: "xs \<noteq> [] \<Longrightarrow> index xs 0 = Inr (hd xs)"
  by (cases xs) (simp_all add: index_def)

lemma index_empty: "index [] i = Inl (IndexOutOfRange i 0)"
  by (simp add: index_def)

lemma and_then_Inr: "and_then (Inr x) f = f x"
  by (simp add: and_then_def)

lemma and_then_Inl: "and_then (Inl p) f = Inl p"
  by (simp add: and_then_def)

lemma append_messages_concat:
  "append_messages prompt ms =
     prompt @ concat (map (\<lambda>m. Role m @ '': '' @ Content m @ [CHR 0x0A]) ms)"
  by (induction ms arbitrary: prompt) simp_all

text \<open>A length below \<open>2 ^ 62\<close> and its double are read back unchanged from a 64-bit \<open>int\<close>.\<close>

lemma sint_len:
  assumes "length s < 2 ^ 62"
  shows "sint (len s) = int (length s)" and "sint (len s + len s) = 2 * int (length s)"
proof -
  have b: "int (length s) < 2 ^ 62" using assms
    by (metis of_nat_less_iff of_nat_numeral of_nat_power)
  show "sint (len s) = int (length s)"
    unfolding len_def using b
    by (simp add: signed_of_nat signed_take_bit_int_eq_self)
  have "len s + len s = (of_nat (length s + length s) :: 64 word)"
    by (simp add: len_def)
  then show "sint (len s + len s) = 2 * int (length s)"
    using b by (simp add: signed_of_nat signed_take_bit_int_eq_self del: of_nat_add)
qed

lemma chat_conversion_nonempty:
  assumes "Generations koboldResp \<noteq> []"
  shows "convertKoboldResponseToOpenAIChatResponse uid now koboldResp =
       Inr \<lparr>chatResp_ID = uid,
            chatResp_Object = ''chat.completion'',
            chatResp_Created = now,
            chatResp_Choices =
              [\<lparr>chatChoice_Index = 0,
                Message = \<lparr>Role = ''assistant'', Content = Text (hd (Generations koboldResp))\<rparr>,
                chatChoice_FinishReason = ''stop''\<rparr>],
            chatResp_Usage =
              \<lparr>PromptTokens = len (Text (hd (Generations koboldResp))),
               CompletionTokens = len (Text (hd (Generations koboldResp))),
               TotalTokens = len (Text (hd (Generations koboldResp)))
                               + len (Text (hd (Generations koboldResp)))\<rparr>\<rparr>"
  using assms
  by (simp add: convertKoboldResponseToOpenAIChatResponse_def index_nonempty and_then_Inr Let_def)

lemma completion_conversion_nonempty:
  assumes "Generations koboldResp \<noteq> []"
  shows "convertKoboldResponseToOpenAICompletionResponse uid now koboldResp =
     Inr \<lparr>compResp_ID = uid,
          compResp_Object = ''text.completion'',
          compResp_Created = now,
          compResp_Model = ''davinci-codex'',
          compResp_Choices =
            [\<lparr>compChoice_Text = Text (hd (Generations koboldResp)),
              compChoice_Index = 0,
              compChoice_Logprobs = None,
              compChoice_FinishReason = ''stop''\<rparr>],
          compResp_Usage = \<lparr>PromptTokens = 0, CompletionTokens = 0, TotalTokens = 0\<rparr>\<rparr>"
  using assms
  by (simp add: convertKoboldResponseToOpenAICompletionResponse_def index_nonempty and_then_Inr)

section \<open>The poll loop\<close>

lemma poll_loop_step:
  "gets i url = GetDecoded s \<Longrightarrow> \<not> Done s \<Longrightarrow>
     poll_loop gets url i tr = poll_loop gets url (Suc i) (tr @ [Sleep 2, GET url])"
  by (subst poll_loop.simps) simp

lemma poll_loop_done:
  "gets i url = GetDecoded s \<Longrightarrow> Done s \<Longrightarrow>
     poll_loop gets url i tr = Some (Inr s, tr @ [Sleep 2, GET url])"
  by (subst poll_loop.simps) simp

text \<open>
  If the statuses from the \<open>i\<close>-th on are unfinished up to the \<open>n\<close>-th after it, which
  is finished, the loop makes \<open>n + 1\<close> rounds of pause and request and returns that one.
\<close>

lemma poll_loop_first_done:
  assumes "\<forall>j<n. \<exists>s. gets (i + j) url = GetDecoded s \<and> \<not> Done s"
    and "gets (i + n) url = GetDecoded st" and "Done st"
  shows "poll_loop gets url i tr =
           Some (Inr st, tr @ concat (replicate (Suc n) [Sleep 2, GET url]))"
  using assms
proof (induction n arbitrary: i tr)
  case 0
  then show ?case by (simp add: poll_loop_done)
next
  case (Suc n)
  from Suc.prems(1) obtain s where s: "gets i url = GetDecoded s" "\<not> Done s"
    by force
  have later: "\<forall>j<n. \<exists>s. gets (Suc i + j) url = GetDecoded s \<and> \<not> Done s"
    using Suc.prems(1) by (metis Suc_less_eq add_Suc_shift)
  have "poll_loop gets url (Suc i) (tr @ [Sleep 2, GET url]) =
          Some (Inr st, (tr @ [Sleep 2, GET url]) @ concat (replicate (Suc n) [Sleep 2, GET url]))"
    using later Suc.prems(2,3) by (intro Suc.IH) simp_all
  then show ?case
    using s by (simp add: poll_loop_step)
qed

text \<open>A loop that returns has met a request that failed, did not decode, or was finished.\<close>

lemma poll_loop_returns_ex:
  assumes "poll_loop gets url i tr = Some y"
  shows "\<exists>j\<ge>i. \<not> (\<exists>s. gets j url = GetDecoded s \<and> \<not> Done s)"
proof (rule poll_loop.raw_induct
    [where P = "\<lambda>g u k t r. \<exists>j\<ge>k. \<not> (\<exists>s. g j u = GetDecoded s \<and> \<not> Done s)", OF _ assms],
    goal_cases)
  case (1 poll g u k t r)
  show ?case
  proof (cases "\<exists>s. g k u = GetDecoded s \<and> \<not> Done s")
    case False
    then show ?thesis by blast
  next
    case True
    then obtain s where s: "g k u = GetDecoded s" "\<not> Done s" by blast
    with 1(2) have "poll g u (Suc k) (t @ [Sleep 2, GET u]) = Some r"
      by simp
    then have "\<exists>j\<ge>Suc k. \<not> (\<exists>s. g j u = GetDecoded s \<and> \<not> Done s)"
      by (rule 1(1))
    then show ?thesis using Suc_leD by blast
  qed
qed

lemma poll_loop_never_done:
  assumes "\<forall>j. \<exists>s. gets j url = GetDecoded s \<and> \<not> Done s"
  shows "poll_loop gets url i tr = None"
proof (cases "poll_loop gets url i tr")
  case None
  then show ?thesis .
next
  case (Some y)
  then show ?thesis using poll_loop_returns_ex [OF Some] assms by blast
qed

text \<open>The loop only appends pauses and status requests to the trace.\<close>

lemma poll_loop_trace:
  assumes "poll_loop gets url i tr = Some y"
  shows "\<exists>ext. snd y = tr @ ext \<and> set ext \<subseteq> {Sleep 2, GET url}"
proof (rule poll_loop.raw_induct
    [where P = "\<lambda>g u k t r. \<exists>ext. snd r = t @ ext \<and> set ext \<subseteq> {Sleep 2, GET u}", OF _ assms],
    goal_cases)
  case (1 poll g u k t r)
  have now: "set [Sleep 2, GET u] \<subseteq> {Sleep 2, GET u}" by simp
  show ?case
  proof (cases "g k u")
    case (GetFailed e)
    with 1(2) have "snd r = t @ [Sleep 2, GET u]" by auto
    with now show ?thesis by blast
  next
    case (GetUndecodable e)
    with 1(2) have "snd r = t @ [Sleep 2, GET u]" by auto
    with now show ?thesis by blast
  next
    case (GetDecoded s)
    show ?thesis
    proof (cases "Done s")
      case True
      with GetDecoded 1(2) have "snd r = t @ [Sleep 2, GET u]" by auto
      with now show ?thesis by blast
    next
      case False
      with GetDecoded 1(2) have "poll g u (Suc k) (t @ [Sleep 2, GET u]) = Some r"
        by simp
      then obtain ext where
        "snd r = (t @ [Sleep 2, GET u]) @ ext" "set ext \<subseteq> {Sleep 2, GET u}"
        using 1(1) by blast
      then have "snd r = t @ ([Sleep 2, GET u] @ ext)
          \<and> set ([Sleep 2, GET u] @ ext) \<subseteq> {Sleep 2, GET u}"
        by simp
      then show ?thesis by blast
    qed
  qed
qed

section \<open>The client and the handlers\<close>

lemma callKoboldAPI_trace:
  assumes "callKoboldAPI w koboldReq apiKey tr = Some (res, tr')"
  shows "\<exists>ext. tr' = tr @ ext \<and> (\<forall>e\<in>set ext. downstream e)"
proof (cases "json_Marshal w koboldReq")
  case (Inl err)
  with assms show ?thesis by (simp add: callKoboldAPI_def)
next
  case (Inr reqBody)
  note body = this
  show ?thesis
  proof (cases "http_NewRequest w ''POST'' koboldAPIURL reqBody")
    case (Some err)
    with body assms show ?thesis by (simp add: callKoboldAPI_def)
  next
    case None
    let ?hs = "[(''Content-Type'', ''application/json''), (''apikey'', apiKey)]"
    let ?tr1 = "tr @ [POST koboldAPIURL ?hs reqBody]"
    show ?thesis
    proof (cases "client_Do w koboldAPIURL ?hs reqBody")
      case (PostFailed err)
      with body None assms have "tr' = tr @ [POST koboldAPIURL ?hs reqBody]"
        by (simp add: callKoboldAPI_def)
      then show ?thesis by simp
    next
      case (PostUndecodable err)
      with body None assms have "tr' = tr @ [POST koboldAPIURL ?hs reqBody]"
        by (simp add: callKoboldAPI_def)
      then show ?thesis by simp
    next
      case (PostDecoded j)
      with body None assms obtain y where
        y: "poll_loop (status_GET w) (koboldStatusURL @ async_ID j) 0 ?tr1 = Some y" "snd y = tr'"
        by (auto simp: callKoboldAPI_def pollKoboldAPI_def split: option.splits sum.splits)
      from poll_loop_trace [OF y(1)] obtain ext where
        "snd y = ?tr1 @ ext" "set ext \<subseteq> {Sleep 2, GET (koboldStatusURL @ async_ID j)}"
        by blast
      with y(2) have "tr' = tr @ (POST koboldAPIURL ?hs reqBody # ext)
          \<and> (\<forall>e\<in>set (POST koboldAPIURL ?hs reqBody # ext). downstream e)"
        by auto
      then show ?thesis by blast
    qed
  qed
qed

text \<open>The four ways in which each handler ends, with the trace it leaves.\<close>

lemma chatCompletionHandler_ends:
  assumes "chatCompletionHandler w r = Some (e, trace)"
  shows "(\<exists>err. e = Returned \<and> trace = [http_Error err 400])
       \<or> (\<exists>err tr. e = Returned \<and> (\<forall>x\<in>set tr. downstream x) \<and> trace = tr @ [http_Error err 500])
       \<or> (\<exists>p. e = Panicked p \<and> (\<forall>x\<in>set trace. downstream x))
       \<or> (\<exists>resp tr. e = Returned \<and> (\<forall>x\<in>set tr. downstream x)
             \<and> trace = tr @ [Header_Set ''Content-Type'' ''application/json'', Encode_chat resp])"
proof (cases "decode_chat w (Body r)")
  case (Inl err)
  with assms have "e = Returned \<and> trace = [http_Error err 400]"
    by (auto simp: chatCompletionHandler_def StatusBadRequest_def)
  then show ?thesis by blast
next
  case (Inr chatReq)
  note req = this
  show ?thesis
  proof (cases "callKoboldAPI w (convertOpenAIChatRequestToKobold chatReq) (bearer_key r) []")
    case None
    with req assms show ?thesis by (simp add: chatCompletionHandler_def)
  next
    case (Some y)
    obtain res tr where y: "y = (res, tr)" by (cases y)
    from callKoboldAPI_trace [OF Some [unfolded y]] have tr: "\<forall>x\<in>set tr. downstream x"
      by simp
    show ?thesis
    proof (cases res)
      case (Inl err)
      with req Some y assms have "e = Returned \<and> trace = tr @ [http_Error err 500]"
        by (simp add: chatCompletionHandler_def StatusInternalServerError_def)
      with tr show ?thesis by blast
    next
      case (Inr koboldResp)
      note resp = this
      show ?thesis
      proof (cases "convertKoboldResponseToOpenAIChatResponse (uuid_String w) (time_Unix w) koboldResp")
        case (Inl p)
        with req Some y resp assms have "e = Panicked p \<and> trace = tr"
          by (simp add: chatCompletionHandler_def)
        with tr show ?thesis by blast
      next
        case (Inr chatResp)
        with req Some y resp assms have "e = Returned
            \<and> trace = tr @ [Header_Set ''Content-Type'' ''application/json'', Encode_chat chatResp]"
          by (simp add: chatCompletionHandler_def)
        with tr show ?thesis by blast
      qed
    qed
  qed
qed

lemma completionHandler_ends:
  assumes "completionHandler w r = Some (e, trace)"
  shows "(\<exists>err. e = Returned \<and> trace = [http_Error err 400])
       \<or> (\<exists>err tr. e = Returned \<and> (\<forall>x\<in>set tr. downstream x) \<and> trace = tr @ [http_Error err 500])
       \<or> (\<exists>p. e = Panicked p \<and> (\<forall>x\<in>set trace. downstream x))
       \<or> (\<exists>resp tr. e = Returned \<and> (\<forall>x\<in>set tr. downstream x)
             \<and> trace = tr @ [Encode_completion resp])"
proof (cases "decode_completion w (Body r)")
  case (Inl err)
  with assms have "e = Returned \<and> trace = [http_Error err 400]"
    by (auto simp: completionHandler_def StatusBadRequest_def)
  then show ?thesis by blast
next
  case (Inr completionReq)
  note req = this
  show ?thesis
  proof (cases "callKoboldAPI w (convertOpenAICompletionRequestToKobold completionReq)
                  (bearer_key r) []")
    case None
    with req assms show ?thesis by (simp add: completionHandler_def)
  next
    case (Some y)
    obtain res tr where y: "y = (res, tr)" by (cases y)
    from callKoboldAPI_trace [OF Some [unfolded y]] have tr: "\<forall>x\<in>set tr. downstream x"
      by simp
    show ?thesis
    proof (cases res)
      case (Inl err)
      with req Some y assms have "e = Returned \<and> trace = tr @ [http_Error err 500]"
        by (simp add: completionHandler_def StatusInternalServerError_def)
      with tr show ?thesis by blast
    next
      case (Inr koboldResp)
      note resp = this
      show ?thesis
      proof (cases "convertKoboldResponseToOpenAICompletionResponse
                      (uuid_String w) (time_Unix w) koboldResp")
        case (Inl p)
        with req Some y resp assms have "e = Panicked p \<and> trace = tr"
          by (simp add: completionHandler_def)
        with tr show ?thesis by blast
      next
        case (Inr completionResp)
        with req Some y resp assms have "e = Returned
            \<and> trace = tr @ [Encode_completion completionResp]"
          by (simp add: completionHandler_def)
        with tr show ?thesis by blast
      qed
    qed
  qed
qed

text \<open>The example surroundings: the job is accepted, polled twice, and returned.\<close>

lemma example_call:
  "callKoboldAPI (example_world accepted two_polls) koboldReq apiKey [] =
     Some (Inr (status_with True False [generation_with ''a'' ''World'']),
           [POST koboldAPIURL [(''Content-Type'', ''application/json''), (''apikey'', apiKey)]
              (Prompt koboldReq),
            Sleep 2, GET (koboldStatusURL @ ''job''),
            Sleep 2, GET (koboldStatusURL @ ''job'')])"
proof -
  let ?gets = "status_GET (example_world accepted two_polls)"
  let ?url = "koboldStatusURL @ ''job''"
  have g0: "?gets 0 ?url = GetDecoded (status_with False True [])"
    and g1: "?gets (Suc 0) ?url = GetDecoded (status_with True False [generation_with ''a'' ''World''])"
    by (simp_all add: example_world_def two_polls_def)
  have d0: "\<not> Done (status_with False True [])"
    and d1: "Done (status_with True False [generation_with ''a'' ''World''])"
    by (simp_all add: status_with_def)
  have "poll_loop ?gets ?url 0 tr =
      Some (Inr (status_with True False [generation_with ''a'' ''World'']),
            (tr @ [Sleep 2, GET ?url]) @ [Sleep 2, GET ?url])" for tr
    by (simp only: poll_loop_step [of ?gets 0 ?url, OF g0 d0]
        poll_loop_done [of ?gets "Suc 0" ?url, OF g1 d1])
  then have "pollKoboldAPI (example_world accepted two_polls) ''job'' tr =
      Some (Inr (status_with True False [generation_with ''a'' ''World'']),
            tr @ [Sleep 2, GET ?url, Sleep 2, GET ?url])" for tr
    by (simp add: pollKoboldAPI_def)
  then show ?thesis
    by (simp add: callKoboldAPI_def) (simp add: example_world_def accepted_def)
qed

lemma example_chat_handler:
  "chatCompletionHandler (example_world accepted two_polls)
       \<lparr>Authorization = ''Bearer k'', Body = ''chat body''\<rparr> =
     Some (Returned,
       [POST koboldAPIURL [(''Content-Type'', ''application/json''), (''apikey'', ''k'')]
          (''user: Hi'' @ [CHR 0x0A]),
        Sleep 2, GET (koboldStatusURL @ ''job''),
        Sleep 2, GET (koboldStatusURL @ ''job''),
        Header_Set ''Content-Type'' ''application/json'',
        Encode_chat
          \<lparr>chatResp_ID = ''id-1'',
           chatResp_Object = ''chat.completion'',
           chatResp_Created = 1700000000,
           chatResp_Choices =
             [\<lparr>chatChoice_Index = 0,
               Message = \<lparr>Role = ''assistant'', Content = ''World''\<rparr>,
               chatChoice_FinishReason = ''stop''\<rparr>],
           chatResp_Usage =
             \<lparr>PromptTokens = 5, CompletionTokens = 5, TotalTokens = 10\<rparr>\<rparr>])"
proof -
  have key: "bearer_key \<lparr>Authorization = ''Bearer k'', Body = ''chat body''\<rparr> = ''k''"
    by (simp add: bearer_key_def TrimPrefix_def)
  have req: "decode_chat (example_world accepted two_polls) ''chat body'' =
      Inr \<lparr>chatReq_Model = ''m'', chatReq_Messages = [\<lparr>Role = ''user'', Content = ''Hi''\<rparr>]\<rparr>"
    by (simp add: example_world_def)
  have conv: "convertKoboldResponseToOpenAIChatResponse ''id-1'' 1700000000
        (status_with True False [generation_with ''a'' ''World'']) =
      Inr \<lparr>chatResp_ID = ''id-1'',
           chatResp_Object = ''chat.completion'',
           chatResp_Created = 1700000000,
           chatResp_Choices =
             [\<lparr>chatChoice_Index = 0,
               Message = \<lparr>Role = ''assistant'', Content = ''World''\<rparr>,
               chatChoice_FinishReason = ''stop''\<rparr>],
           chatResp_Usage =
             \<lparr>PromptTokens = 5, CompletionTokens = 5, TotalTokens = 10\<rparr>\<rparr>"
    by (simp add: chat_conversion_nonempty status_with_def generation_with_def len_def)
  have ids: "uuid_String (example_world accepted two_polls) = ''id-1''"
    "time_Unix (example_world accepted two_polls) = 1700000000"
    by (simp_all add: example_world_def)
  show ?thesis
    by (simp add: chatCompletionHandler_def key req example_call ids conv
        convertOpenAIChatRequestToKobold_def)
qed

lemma example_completion_handler:
  "completionHandler (example_world accepted two_polls)
       \<lparr>Authorization = '''', Body = ''completion body''\<rparr> =
     Some (Returned,
       [POST koboldAPIURL [(''Content-Type'', ''application/json''), (''apikey'', ''0000000000'')]
          ''Hi'',
        Sleep 2, GET (koboldStatusURL @ ''job''),
        Sleep 2, GET (koboldStatusURL @ ''job''),
        Encode_completion
          \<lparr>compResp_ID = ''id-1'',
           compResp_Object = ''text.completion'',
           compResp_Created = 1700000000,
           compResp_Model = ''davinci-codex'',
           compResp_Choices =
             [\<lparr>compChoice_Text = ''World'', compChoice_Index = 0,
               compChoice_Logprobs = None, compChoice_FinishReason = ''stop''\<rparr>],
           compResp_Usage =
             \<lparr>PromptTokens = 0, CompletionTokens = 0, TotalTokens = 0\<rparr>\<rparr>])"
proof -
  have key: "bearer_key \<lparr>Authorization = '''', Body = ''completion body''\<rparr> = ''0000000000''"
    by (simp add: bearer_key_def defaultAPIKey_def)
  have req: "decode_completion (example_world accepted two_polls) ''completion body'' =
      Inr (completion_request_with 0 0 0 False None [])"
    by (simp add: example_world_def)
  have conv: "convertKoboldResponseToOpenAICompletionResponse ''id-1'' 1700000000
        (status_with True False [generation_with ''a'' ''World'']) =
      Inr \<lparr>compResp_ID = ''id-1'',
           compResp_Object = ''text.completion'',
           compResp_Created = 1700000000,
           compResp_Model = ''davinci-codex'',
           compResp_Choices =
             [\<lparr>compChoice_Text = ''World'', compChoice_Index = 0,
               compChoice_Logprobs = None, compChoice_FinishReason = ''stop''\<rparr>],
           compResp_Usage =
             \<lparr>PromptTokens = 0, CompletionTokens = 0, TotalTokens = 0\<rparr>\<rparr>"
    by (simp add: completion_conversion_nonempty status_with_def generation_with_def)
  have ids: "uuid_String (example_world accepted two_polls) = ''id-1''"
    "time_Unix (example_world accepted two_polls) = 1700000000"
    by (simp_all add: example_world_def)
  show ?thesis
    by (simp add: completionHandler_def key req example_call ids conv
        convertOpenAICompletionRequestToKobold_def completion_request_with_def)
qed

text \<open>A finished job without generations reaches the handlers like any other status.\<close>

lemma example_call_no_generations:
  "callKoboldAPI (example_world accepted (\<lambda>i. GetDecoded (status_with True False [])))
       koboldReq apiKey [] =
     Some (Inr (status_with True False []),
           [POST koboldAPIURL [(''Content-Type'', ''application/json''), (''apikey'', apiKey)]
              (Prompt koboldReq),
            Sleep 2, GET (koboldStatusURL @ ''job'')])"
proof -
  let ?w = "example_world accepted (\<lambda>i. GetDecoded (status_with True False []))"
  let ?url = "koboldStatusURL @ ''job''"
  have g0: "status_GET ?w 0 ?url = GetDecoded (status_with True False [])"
    by (simp add: example_world_def)
  have d0: "Done (status_with True False [])"
    by (simp add: status_with_def)
  have "pollKoboldAPI ?w ''job'' tr =
      Some (Inr (status_with True False []), tr @ [Sleep 2, GET ?url])" for tr
    unfolding pollKoboldAPI_def
    by (rule poll_loop_done [of "status_GET ?w" 0 ?url, OF g0 d0])
  then show ?thesis
    by (simp add: callKoboldAPI_def) (simp add: example_world_def accepted_def)
qed

section \<open>The claims\<close>

text \<open>
  Claim C1 says that both response conversions fail with a typed error on a finished
  status without generations. The program has no such error: \<open>Generations[0]\<close> is
  not guarded, and on that status both conversions panic with an index out of range,
  inside the handler and after the job was submitted and polled.
\<close>

theorem empty_generations_panic:
  "convertKoboldResponseToOpenAIChatResponse uid now (status_with True False [])
     = Inl (IndexOutOfRange 0 0)
   \<and> convertKoboldResponseToOpenAICompletionResponse uid now (status_with True False [])
     = Inl (IndexOutOfRange 0 0)
   \<and> chatCompletionHandler (example_world accepted (\<lambda>i. GetDecoded (status_with True False [])))
       \<lparr>Authorization = '''', Body = ''chat body''\<rparr>
     = Some (Panicked (IndexOutOfRange 0 0),
         [POST koboldAPIURL [(''Content-Type'', ''application/json''), (''apikey'', ''0000000000'')]
            (''user: Hi'' @ [CHR 0x0A]),
          Sleep 2, GET (koboldStatusURL @ ''job'')])
   \<and> completionHandler (example_world accepted (\<lambda>i. GetDecoded (status_with True False [])))
       \<lparr>Authorization = '''', Body = ''completion body''\<rparr>
     = Some (Panicked (IndexOutOfRange 0 0),
         [POST koboldAPIURL [(''Content-Type'', ''application/json''), (''apikey'', ''0000000000'')]
            ''Hi'',
          Sleep 2, GET (koboldStatusURL @ ''job'')])"
proof -
  let ?w = "example_world accepted (\<lambda>i. GetDecoded (status_with True False []))"
  have empty: "Generations (status_with True False []) = []"
    by (simp add: status_with_def)
  have chat: "convertKoboldResponseToOpenAIChatResponse u t (status_with True False [])
      = Inl (IndexOutOfRange 0 0)" for u t
    by (simp add: convertKoboldResponseToOpenAIChatResponse_def empty index_empty and_then_Inl)
  have completion: "convertKoboldResponseToOpenAICompletionResponse u t (status_with True False [])
      = Inl (IndexOutOfRange 0 0)" for u t
    by (simp add: convertKoboldResponseToOpenAICompletionResponse_def empty index_empty
        and_then_Inl)
  have key: "bearer_key \<lparr>Authorization = '''', Body = b\<rparr> = ''0000000000''" for b
    by (simp add: bearer_key_def defaultAPIKey_def)
  have req: "decode_chat ?w ''chat body'' =
      Inr \<lparr>chatReq_Model = ''m'', chatReq_Messages = [\<lparr>Role = ''user'', Content = ''Hi''\<rparr>]\<rparr>"
    "decode_completion ?w ''completion body'' = Inr (completion_request_with 0 0 0 False None [])"
    by (simp_all add: example_world_def)
  have h1: "chatCompletionHandler ?w \<lparr>Authorization = '''', Body = ''chat body''\<rparr>
     = Some (Panicked (IndexOutOfRange 0 0),
         [POST koboldAPIURL [(''Content-Type'', ''application/json''), (''apikey'', ''0000000000'')]
            (''user: Hi'' @ [CHR 0x0A]),
          Sleep 2, GET (koboldStatusURL @ ''job'')])"
    by (simp add: chatCompletionHandler_def key req example_call_no_generations chat
        convertOpenAIChatRequestToKobold_def)
  have h2: "completionHandler ?w \<lparr>Authorization = '''', Body = ''completion body''\<rparr>
     = Some (Panicked (IndexOutOfRange 0 0),
         [POST koboldAPIURL [(''Content-Type'', ''application/json''), (''apikey'', ''0000000000'')]
            ''Hi'',
          Sleep 2, GET (koboldStatusURL @ ''job'')])"
    by (simp add: completionHandler_def key req example_call_no_generations completion
        convertOpenAICompletionRequestToKobold_def completion_request_with_def)
  from chat completion h1 h2 show ?thesis by blast
qed

text \<open>
  Claim C2: the poll loop returns at the first status whose \<open>done\<close> flag is set. If the
  statuses before the \<open>n\<close>-th are decoded and unfinished and the \<open>n\<close>-th is finished,
  \<open>pollKoboldAPI\<close> returns the \<open>n\<close>-th after exactly \<open>n + 1\<close> rounds of a pause and
  a status request, and makes no further request. A status that is faulted and
  unfinished sends the loop into its next round, and a job whose statuses are all
  faulted and unfinished is polled forever.
\<close>

theorem poll_returns_at_first_done:
  "((\<forall>j<n. \<exists>s. status_GET w j (koboldStatusURL @ ident) = GetDecoded s \<and> \<not> Done s)
      \<and> status_GET w n (koboldStatusURL @ ident) = GetDecoded st \<and> Done st
    \<longrightarrow> pollKoboldAPI w ident [] =
          Some (Inr st, concat (replicate (Suc n) [Sleep 2, GET (koboldStatusURL @ ident)])))
   \<and> (gets i url = GetDecoded st' \<and> Faulted st' \<and> \<not> Done st'
    \<longrightarrow> poll_loop gets url i tr = poll_loop gets url (Suc i) (tr @ [Sleep 2, GET url]))
   \<and> ((\<forall>j. \<exists>s. status_GET w' j (koboldStatusURL @ ident') = GetDecoded s
               \<and> Faulted s \<and> \<not> Done s)
    \<longrightarrow> pollKoboldAPI w' ident' [] = None)"
proof (intro conjI impI)
  assume a: "(\<forall>j<n. \<exists>s. status_GET w j (koboldStatusURL @ ident) = GetDecoded s \<and> \<not> Done s)
      \<and> status_GET w n (koboldStatusURL @ ident) = GetDecoded st \<and> Done st"
  have "poll_loop (status_GET w) (koboldStatusURL @ ident) 0 [] =
          Some (Inr st, [] @ concat (replicate (Suc n) [Sleep 2, GET (koboldStatusURL @ ident)]))"
    using a by (intro poll_loop_first_done) simp_all
  then show "pollKoboldAPI w ident [] =
          Some (Inr st, concat (replicate (Suc n) [Sleep 2, GET (koboldStatusURL @ ident)]))"
    by (simp add: pollKoboldAPI_def)
next
  assume "gets i url = GetDecoded st' \<and> Faulted st' \<and> \<not> Done st'"
  then show "poll_loop gets url i tr = poll_loop gets url (Suc i) (tr @ [Sleep 2, GET url])"
    by (simp add: poll_loop_step)
next
  assume "\<forall>j. \<exists>s. status_GET w' j (koboldStatusURL @ ident') = GetDecoded s
            \<and> Faulted s \<and> \<not> Done s"
  then have "\<forall>j. \<exists>s. status_GET w' j (koboldStatusURL @ ident') = GetDecoded s \<and> \<not> Done s"
    by blast
  then show "pollKoboldAPI w' ident' [] = None"
    unfolding pollKoboldAPI_def by (rule poll_loop_never_done)
qed

theorem poll_returns_at_first_done_witness:
  "pollKoboldAPI (example_world accepted two_polls) ''job'' [] =
     Some (Inr (status_with True False [generation_with ''a'' ''World'']),
           [Sleep 2, GET (koboldStatusURL @ ''job''), Sleep 2, GET (koboldStatusURL @ ''job'')])
   \<and> Faulted (status_with False True []) \<and> \<not> Done (status_with False True [])
   \<and> poll_loop (\<lambda>i url. two_polls i) (koboldStatusURL @ ''job'') 0 [] =
       poll_loop (\<lambda>i url. two_polls i) (koboldStatusURL @ ''job'') (Suc 0)
         [Sleep 2, GET (koboldStatusURL @ ''job'')]
   \<and> pollKoboldAPI (example_world accepted (\<lambda>i. GetDecoded (status_with False True []))) ''job'' []
       = None"
  using poll_returns_at_first_done [of "Suc 0" "example_world accepted two_polls" "''job''"
      "status_with True False [generation_with ''a'' ''World'']"
      "\<lambda>i url. two_polls i" 0 "koboldStatusURL @ ''job''" "status_with False True []" "[]"
      "example_world accepted (\<lambda>i. GetDecoded (status_with False True []))" "''job''"]
  by (simp add: example_world_def two_polls_def status_with_def)

text \<open>
  Claim C3: for every chat request, also one without messages,
  \<open>convertOpenAIChatRequestToKobold\<close> returns the job whose prompt is the
  concatenation of \<open>role: content\<close> and a newline for each message in order (the empty
  string for no message), whose models are the requested model alone, with
  \<open>trusted_workers\<close> false, \<open>max_context_length\<close> 1024 and \<open>max_length\<close> 100. The
  request carries no length or sampling parameters that could change the result.
\<close>

theorem chat_request_to_job:
  "convertOpenAIChatRequestToKobold chatReq =
     \<lparr>Prompt = concat (map (\<lambda>m. Role m @ '': '' @ Content m @ [CHR 0x0A])
                         (chatReq_Messages chatReq)),
      Models = [chatReq_Model chatReq],
      TrustedWorkers = False,
      Params = \<lparr>MaxContextLength = 1024, MaxLength = 100\<rparr>\<rparr>
   \<and> Prompt (convertOpenAIChatRequestToKobold (chatReq\<lparr>chatReq_Messages := []\<rparr>)) = ''''"
  by (simp add: convertOpenAIChatRequestToKobold_def append_messages_concat)

text \<open>
  Claim C4: for every completion request, \<open>convertOpenAICompletionRequestToKobold\<close>
  returns the job with the request's prompt unchanged, the requested model as only
  model, \<open>trusted_workers\<close> false, \<open>max_context_length\<close> 1024 and \<open>max_length\<close> the
  request's \<open>max_tokens\<close>; two requests with the same model, prompt and \<open>max_tokens\<close>
  give the same job, whatever their temperature, top_p, n, stream, logprobs and stop.
\<close>

theorem completion_request_to_job:
  "Prompt (convertOpenAICompletionRequestToKobold r) = compReq_Prompt r
   \<and> Models (convertOpenAICompletionRequestToKobold r) = [compReq_Model r]
   \<and> TrustedWorkers (convertOpenAICompletionRequestToKobold r) = False
   \<and> MaxContextLength (Params (convertOpenAICompletionRequestToKobold r)) = 1024
   \<and> MaxLength (Params (convertOpenAICompletionRequestToKobold r)) = MaxTokens r
   \<and> (compReq_Model r' = compReq_Model r \<and> compReq_Prompt r' = compReq_Prompt r
        \<and> MaxTokens r' = MaxTokens r
      \<longrightarrow> convertOpenAICompletionRequestToKobold r' = convertOpenAICompletionRequestToKobold r)"
  by (simp add: convertOpenAICompletionRequestToKobold_def)

theorem completion_request_to_job_witness:
  "compReq_Model (completion_request_with 1 2 3 True (Some 5) [''.''])
     = compReq_Model (completion_request_with 0 0 0 False None [])
   \<and> compReq_Prompt (completion_request_with 1 2 3 True (Some 5) [''.''])
     = compReq_Prompt (completion_request_with 0 0 0 False None [])
   \<and> MaxTokens (completion_request_with 1 2 3 True (Some 5) [''.''])
     = MaxTokens (completion_request_with 0 0 0 False None [])
   \<and> completion_request_with 1 2 3 True (Some 5) [''.'']
     \<noteq> completion_request_with 0 0 0 False None []
   \<and> convertOpenAICompletionRequestToKobold (completion_request_with 1 2 3 True (Some 5) [''.''])
     = convertOpenAICompletionRequestToKobold (completion_request_with 0 0 0 False None [])
   \<and> convertOpenAICompletionRequestToKobold (completion_request_with 0 0 0 False None [])
     = \<lparr>Prompt = ''Hi'', Models = [''m''], TrustedWorkers = False,
        Params = \<lparr>MaxContextLength = 1024, MaxLength = 50\<rparr>\<rparr>"
  using completion_request_to_job [of "completion_request_with 0 0 0 False None []"
                "completion_request_with 1 2 3 True (Some 5) [''.'']"]
  by (simp add: completion_request_with_def)

text \<open>
  Claim C5: for every status with at least one generation,
  \<open>convertKoboldResponseToOpenAICompletionResponse\<close> returns the response with
  object \<open>text.completion\<close>, model \<open>davinci-codex\<close>, one choice holding the first
  generation's text at index 0 with no log-probabilities and finish reason \<open>stop\<close>,
  and the three usage counters zero; id and creation time are those it was given.
\<close>

theorem completion_response_of_first_generation:
  assumes "Generations koboldResp \<noteq> []"
  shows "convertKoboldResponseToOpenAICompletionResponse uid now koboldResp =
     Inr \<lparr>compResp_ID = uid,
          compResp_Object = ''text.completion'',
          compResp_Created = now,
          compResp_Model = ''davinci-codex'',
          compResp_Choices =
            [\<lparr>compChoice_Text = Text (hd (Generations koboldResp)),
              compChoice_Index = 0,
              compChoice_Logprobs = None,
              compChoice_FinishReason = ''stop''\<rparr>],
          compResp_Usage = \<lparr>PromptTokens = 0, CompletionTokens = 0, TotalTokens = 0\<rparr>\<rparr>"
  using assms by (rule completion_conversion_nonempty)

theorem completion_response_of_first_generation_witness:
  "Generations (status_with True False [generation_with ''a'' ''World'']) \<noteq> []
   \<and> convertKoboldResponseToOpenAICompletionResponse ''id-1'' 1700000000
        (status_with True False [generation_with ''a'' ''World'']) =
     Inr \<lparr>compResp_ID = ''id-1'',
          compResp_Object = ''text.completion'',
          compResp_Created = 1700000000,
          compResp_Model = ''davinci-codex'',
          compResp_Choices =
            [\<lparr>compChoice_Text = ''World'', compChoice_Index = 0,
              compChoice_Logprobs = None, compChoice_FinishReason = ''stop''\<rparr>],
          compResp_Usage = \<lparr>PromptTokens = 0, CompletionTokens = 0, TotalTokens = 0\<rparr>\<rparr>"
  using completion_response_of_first_generation
    [of "status_with True False [generation_with ''a'' ''World'']" "''id-1''" 1700000000]
  by (simp add: status_with_def generation_with_def)

text \<open>
  Claim C6: for every status with at least one generation,
  \<open>convertKoboldResponseToOpenAIChatResponse\<close> returns the response with object
  \<open>chat.completion\<close> and one choice at index 0, whose message has role \<open>assistant\<close>
  and the first generation's text \<open>t\<close> as content, with finish reason \<open>stop\<close>. The
  usage counters are byte lengths of \<open>t\<close>, not token counts: \<open>prompt_tokens\<close> and
  \<open>completion_tokens\<close> are \<open>len t\<close> and \<open>total_tokens\<close> is their sum, which as
  64-bit numbers are the length of \<open>t\<close> and twice that length for every text shorter
  than \<open>2 ^ 62\<close> bytes.
\<close>

theorem chat_response_of_first_generation:
  assumes "Generations koboldResp \<noteq> []"
  shows "\<exists>t. t = Text (hd (Generations koboldResp)) \<and>
     convertKoboldResponseToOpenAIChatResponse uid now koboldResp =
       Inr \<lparr>chatResp_ID = uid,
            chatResp_Object = ''chat.completion'',
            chatResp_Created = now,
            chatResp_Choices =
              [\<lparr>chatChoice_Index = 0,
                Message = \<lparr>Role = ''assistant'', Content = t\<rparr>,
                chatChoice_FinishReason = ''stop''\<rparr>],
            chatResp_Usage =
              \<lparr>PromptTokens = len t, CompletionTokens = len t, TotalTokens = len t + len t\<rparr>\<rparr>
     \<and> (length t < 2 ^ 62 \<longrightarrow>
          sint (len t) = int (length t) \<and> sint (len t + len t) = 2 * int (length t))"
proof -
  let ?t = "Text (hd (Generations koboldResp))"
  have "convertKoboldResponseToOpenAIChatResponse uid now koboldResp =
       Inr \<lparr>chatResp_ID = uid,
            chatResp_Object = ''chat.completion'',
            chatResp_Created = now,
            chatResp_Choices =
              [\<lparr>chatChoice_Index = 0,
                Message = \<lparr>Role = ''assistant'', Content = ?t\<rparr>,
                chatChoice_FinishReason = ''stop''\<rparr>],
            chatResp_Usage =
              \<lparr>PromptTokens = len ?t, CompletionTokens = len ?t,
               TotalTokens = len ?t + len ?t\<rparr>\<rparr>"
    by (rule chat_conversion_nonempty [OF assms])
  moreover have "length ?t < 2 ^ 62 \<longrightarrow>
      sint (len ?t) = int (length ?t) \<and> sint (len ?t + len ?t) = 2 * int (length ?t)"
    using sint_len [of ?t] by blast
  ultimately show ?thesis by blast
qed

theorem chat_response_of_first_generation_witness:
  "Generations (status_with True False [generation_with ''a'' ''hello'']) \<noteq> []
   \<and> length ''hello'' < (2::nat) ^ 62
   \<and> convertKoboldResponseToOpenAIChatResponse ''id-1'' 1700000000
        (status_with True False [generation_with ''a'' ''hello'']) =
       Inr \<lparr>chatResp_ID = ''id-1'',
            chatResp_Object = ''chat.completion'',
            chatResp_Created = 1700000000,
            chatResp_Choices =
              [\<lparr>chatChoice_Index = 0,
                Message = \<lparr>Role = ''assistant'', Content = ''hello''\<rparr>,
                chatChoice_FinishReason = ''stop''\<rparr>],
            chatResp_Usage =
              \<lparr>PromptTokens = 5, CompletionTokens = 5, TotalTokens = 10\<rparr>\<rparr>
   \<and> sint (len ''hello'') = 5 \<and> sint (len ''hello'' + len ''hello'') = 10"
  using chat_response_of_first_generation
    [of "status_with True False [generation_with ''a'' ''hello'']" "''id-1''" 1700000000]
  by (simp add: status_with_def generation_with_def len_def)

text \<open>
  Claim C7: two statuses that both have a generation and agree on the first one are
  converted to the same chat response and the same completion response, given the
  same id and creation time; with ids and times of their own, the responses differ
  in those two fields only. So nothing after the first generation reaches the output.
\<close>

theorem responses_ignore_later_generations:
  assumes "Generations s1 \<noteq> []" and "Generations s2 \<noteq> []"
    and "hd (Generations s1) = hd (Generations s2)"
  shows "convertKoboldResponseToOpenAIChatResponse uid now s1
           = convertKoboldResponseToOpenAIChatResponse uid now s2
       \<and> convertKoboldResponseToOpenAICompletionResponse uid now s1
           = convertKoboldResponseToOpenAICompletionResponse uid now s2
       \<and> (\<exists>c k. convertKoboldResponseToOpenAIChatResponse uid now s1 = Inr c
              \<and> convertKoboldResponseToOpenAIChatResponse uid' now' s2
                  = Inr (c\<lparr>chatResp_ID := uid', chatResp_Created := now'\<rparr>)
              \<and> convertKoboldResponseToOpenAICompletionResponse uid now s1 = Inr k
              \<and> convertKoboldResponseToOpenAICompletionResponse uid' now' s2
                  = Inr (k\<lparr>compResp_ID := uid', compResp_Created := now'\<rparr>))"
  using assms by (simp add: chat_conversion_nonempty completion_conversion_nonempty)

theorem responses_ignore_later_generations_witness:
  "Generations (status_with True False [generation_with ''a'' ''hello'']) \<noteq> []
   \<and> Generations (status_with True True
         [generation_with ''a'' ''hello'', generation_with ''b'' ''bye'',
          generation_with ''c'' '''']) \<noteq> []
   \<and> hd (Generations (status_with True False [generation_with ''a'' ''hello'']))
     = hd (Generations (status_with True True
         [generation_with ''a'' ''hello'', generation_with ''b'' ''bye'',
          generation_with ''c'' '''']))
   \<and> convertKoboldResponseToOpenAIChatResponse ''id-1'' 7
         (status_with True False [generation_with ''a'' ''hello''])
     = convertKoboldResponseToOpenAIChatResponse ''id-1'' 7
         (status_with True True
            [generation_with ''a'' ''hello'', generation_with ''b'' ''bye'',
             generation_with ''c''  ''''])
   \<and> convertKoboldResponseToOpenAICompletionResponse ''id-1'' 7
         (status_with True False [generation_with ''a'' ''hello''])
     = convertKoboldResponseToOpenAICompletionResponse ''id-1'' 7
         (status_with True True
            [generation_with ''a'' ''hello'', generation_with ''b'' ''bye'',
             generation_with ''c'' ''''])"
  using responses_ignore_later_generations
     [of "status_with True False [generation_with ''a'' ''hello'']"
      "status_with True True
         [generation_with ''a'' ''hello'', generation_with ''b'' ''bye'',
          generation_with ''c'' '''']"
      "''id-1''" 7]
  by (simp add: status_with_def)

text \<open>
  Claim C8: when the submit request of \<open>callKoboldAPI\<close> is made and \<open>client.Do\<close>
  fails, the function returns that error at once: the submit request is the only
  event it adds to the trace, so no status request is made, no pause is taken and the
  poll loop is not entered.
\<close>

theorem submit_failure_issues_no_GET:
  assumes "json_Marshal w koboldReq = Inr reqBody"
    and "http_NewRequest w ''POST'' koboldAPIURL reqBody = None"
    and "client_Do w koboldAPIURL
           [(''Content-Type'', ''application/json''), (''apikey'', apiKey)] reqBody = PostFailed err"
  shows "\<exists>added. callKoboldAPI w koboldReq apiKey tr = Some (Inl err, tr @ added)
           \<and> added = [POST koboldAPIURL
                        [(''Content-Type'', ''application/json''), (''apikey'', apiKey)] reqBody]
           \<and> (\<forall>u. GET u \<notin> set added) \<and> (\<forall>n. Sleep n \<notin> set added)"
  using assms by (simp add: callKoboldAPI_def)

theorem submit_failure_issues_no_GET_witness:
  "json_Marshal (example_world (PostFailed ''connection refused'') two_polls)
       (convertOpenAICompletionRequestToKobold (completion_request_with 0 0 0 False None []))
     = Inr ''Hi''
   \<and> http_NewRequest (example_world (PostFailed ''connection refused'') two_polls)
       ''POST'' koboldAPIURL ''Hi'' = None
   \<and> client_Do (example_world (PostFailed ''connection refused'') two_polls) koboldAPIURL
       [(''Content-Type'', ''application/json''), (''apikey'', ''0000000000'')] ''Hi''
     = PostFailed ''connection refused''
   \<and> callKoboldAPI (example_world (PostFailed ''connection refused'') two_polls)
       (convertOpenAICompletionRequestToKobold (completion_request_with 0 0 0 False None []))
       ''0000000000'' []
     = Some (Inl ''connection refused'',
             [POST koboldAPIURL
                [(''Content-Type'', ''application/json''), (''apikey'', ''0000000000'')] ''Hi''])"
  using submit_failure_issues_no_GET
     [of "example_world (PostFailed ''connection refused'') two_polls"
      "convertOpenAICompletionRequestToKobold (completion_request_with 0 0 0 False None [])"
      "''Hi''" "''0000000000''" "''connection refused''" "[]"]
  by (simp add: example_world_def convertOpenAICompletionRequestToKobold_def
      completion_request_with_def)

text \<open>
  Claim C9: when the body of a request does not decode, either handler returns after
  a single event, the reply \<open>http.Error\<close> makes with the decode error's message and
  status 400. The trace holds no submit request and no status request.
\<close>

theorem malformed_body_replies_400:
  "(decode_chat w (Body r) = Inl err
      \<longrightarrow> chatCompletionHandler w r = Some (Returned, [http_Error err 400]))
   \<and> (decode_completion w (Body r) = Inl err'
      \<longrightarrow> completionHandler w r = Some (Returned, [http_Error err' 400]))"
  by (simp add: chatCompletionHandler_def completionHandler_def StatusBadRequest_def)

theorem malformed_body_replies_400_witness:
  "decode_chat (example_world accepted two_polls) ''{'' = Inl ''unexpected end of JSON input''
   \<and> decode_completion (example_world accepted two_polls) ''{''
       = Inl ''unexpected end of JSON input''
   \<and> chatCompletionHandler (example_world accepted two_polls)
       \<lparr>Authorization = ''Bearer k'', Body = ''{''\<rparr>
     = Some (Returned, [http_Error ''unexpected end of JSON input'' 400])
   \<and> completionHandler (example_world accepted two_polls)
       \<lparr>Authorization = ''Bearer k'', Body = ''{''\<rparr>
     = Some (Returned, [http_Error ''unexpected end of JSON input'' 400])"
  using malformed_body_replies_400
     [of "example_world accepted two_polls" "\<lparr>Authorization = ''Bearer k'', Body = ''{''\<rparr>"
      "''unexpected end of JSON input''" "''unexpected end of JSON input''"]
  by (simp add: example_world_def)

text \<open>
  A request that decodes, whose job the client brings back finished and with a
  generation, is answered with the JSON body as the last event. The events before
  the client's own are none; the client's events are pauses and requests only.
\<close>

lemma chatCompletionHandler_success:
  assumes "decode_chat w (Body r) = Inr chatReq"
    and "callKoboldAPI w (convertOpenAIChatRequestToKobold chatReq) (bearer_key r) []
           = Some (Inr st, tr)"
    and "Generations st \<noteq> []"
  shows "\<exists>c. convertKoboldResponseToOpenAIChatResponse (uuid_String w) (time_Unix w) st = Inr c
           \<and> chatCompletionHandler w r =
               Some (Returned,
                     tr @ [Header_Set ''Content-Type'' ''application/json'', Encode_chat c])"
  using assms
  by (simp add: chatCompletionHandler_def chat_conversion_nonempty)

lemma completionHandler_success:
  assumes "decode_completion w (Body r) = Inr completionReq"
    and "callKoboldAPI w (convertOpenAICompletionRequestToKobold completionReq) (bearer_key r) []
           = Some (Inr st, tr)"
    and "Generations st \<noteq> []"
  shows "\<exists>k. convertKoboldResponseToOpenAICompletionResponse (uuid_String w) (time_Unix w) st
             = Inr k
           \<and> completionHandler w r = Some (Returned, tr @ [Encode_completion k])"
  using assms
  by (simp add: completionHandler_def completion_conversion_nonempty)

text \<open>The client writes nothing on the response writer.\<close>

lemma callKoboldAPI_writes_nothing:
  assumes "callKoboldAPI w koboldReq apiKey [] = Some (res, tr)"
  shows "(\<forall>name v. Header_Set name v \<notin> set tr) \<and> (\<forall>msg code. http_Error msg code \<notin> set tr)
       \<and> (\<forall>c. Encode_chat c \<notin> set tr) \<and> (\<forall>k. Encode_completion k \<notin> set tr)"
proof -
  from callKoboldAPI_trace [OF assms] have d: "\<forall>x\<in>set tr. downstream x" by simp
  have "x \<in> set tr \<Longrightarrow> \<not> downstream x \<Longrightarrow> False" for x
    using d by blast
  from this [of "Header_Set name v" for name v] this [of "http_Error msg code" for msg code]
    this [of "Encode_chat c" for c] this [of "Encode_completion k" for k]
  show ?thesis by auto
qed

text \<open>Conversely, a handler that has written a JSON body has ended in this way.\<close>

lemma body_written_ends:
  "(chatCompletionHandler w r = Some (e, trace) \<and> Encode_chat c \<in> set trace
      \<longrightarrow> e = Returned
        \<and> (\<exists>tr. trace = tr @ [Header_Set ''Content-Type'' ''application/json'', Encode_chat c]))
   \<and> (completionHandler w r' = Some (e', trace') \<and> Encode_completion k \<in> set trace'
      \<longrightarrow> e' = Returned
        \<and> (\<exists>tr. trace' = tr @ [Encode_completion k])
        \<and> (\<forall>name v. Header_Set name v \<notin> set trace'))"
proof (intro conjI impI)
  assume a: "chatCompletionHandler w r = Some (e, trace) \<and> Encode_chat c \<in> set trace"
  then have c: "Encode_chat c \<in> set trace" by simp
  from a chatCompletionHandler_ends [of w r e trace]
  consider (bad) err where "trace = [http_Error err 400]"
    | (failed) err tr where "\<forall>x\<in>set tr. downstream x" "trace = tr @ [http_Error err 500]"
    | (panic) "\<forall>x\<in>set trace. downstream x"
    | (ok) resp tr where "e = Returned" "\<forall>x\<in>set tr. downstream x"
        "trace = tr @ [Header_Set ''Content-Type'' ''application/json'', Encode_chat resp]"
    by blast
  then have "e = Returned
      \<and> (\<exists>tr. trace = tr @ [Header_Set ''Content-Type'' ''application/json'', Encode_chat c])"
  proof cases
    case bad
    with c show ?thesis by simp
  next
    case failed
    with c have "downstream (Encode_chat c)" by auto
    then show ?thesis by simp
  next
    case panic
    with c have "downstream (Encode_chat c)" by blast
    then show ?thesis by simp
  next
    case ok
    from ok(2,3) c have "resp = c \<or> downstream (Encode_chat c)" by auto
    then have "resp = c" by simp
    with ok show ?thesis by blast
  qed
  then show "e = Returned"
    and "\<exists>tr. trace = tr @ [Header_Set ''Content-Type'' ''application/json'', Encode_chat c]"
    by blast+
next
  assume a: "completionHandler w r' = Some (e', trace') \<and> Encode_completion k \<in> set trace'"
  then have c: "Encode_completion k \<in> set trace'" by simp
  from a completionHandler_ends [of w r' e' trace']
  consider (bad) err where "trace' = [http_Error err 400]"
    | (failed) err tr where "\<forall>x\<in>set tr. downstream x" "trace' = tr @ [http_Error err 500]"
    | (panic) "\<forall>x\<in>set trace'. downstream x"
    | (ok) resp tr where "e' = Returned" "\<forall>x\<in>set tr. downstream x"
        "trace' = tr @ [Encode_completion resp]"
    by blast
  then have "e' = Returned \<and> (\<exists>tr. trace' = tr @ [Encode_completion k])
      \<and> (\<forall>name v. Header_Set name v \<notin> set trace')"
  proof cases
    case bad
    with c show ?thesis by simp
  next
    case failed
    with c have "downstream (Encode_completion k)" by auto
    then show ?thesis by simp
  next
    case panic
    with c have "downstream (Encode_completion k)" by blast
    then show ?thesis by simp
  next
    case ok
    from ok(2,3) c have "resp = k \<or> downstream (Encode_completion k)" by auto
    then have k: "resp = k" by simp
    have "Header_Set name v \<notin> set trace'" for name v
    proof
      assume "Header_Set name v \<in> set trace'"
      with ok(2,3) have "downstream (Header_Set name v)" by auto
      then show False by simp
    qed
    with ok k show ?thesis by blast
  qed
  then show "e' = Returned" and "\<exists>tr. trace' = tr @ [Encode_completion k]"
    and "\<forall>name v. Header_Set name v \<notin> set trace'"
    by blast+
qed

text \<open>
  Claim C10: on every successful request, that is one whose body decodes and whose
  job the client brings back finished and with a generation, the chat handler
  returns after the client's events, then the setting of \<open>Content-Type\<close> to
  \<open>application/json\<close>, then the encoding of the converted response, and nothing
  else: the header is set once, before the only body. On such a request the completion
  handler returns after the client's events and the encoding of the converted
  response: no header is set anywhere in its trace. The client's events hold no
  header, error reply or body. Conversely, whenever a handler has written a JSON
  body, its trace has this form.
\<close>

theorem content_type_only_on_chat:
  "(decode_chat w (Body r) = Inr chatReq
      \<and> callKoboldAPI w (convertOpenAIChatRequestToKobold chatReq) (bearer_key r) []
          = Some (Inr st, tr)
      \<and> Generations st \<noteq> []
    \<longrightarrow> (\<exists>c. convertKoboldResponseToOpenAIChatResponse (uuid_String w) (time_Unix w) st = Inr c
          \<and> chatCompletionHandler w r =
              Some (Returned,
                    tr @ [Header_Set ''Content-Type'' ''application/json'', Encode_chat c]))
        \<and> (\<forall>name v. Header_Set name v \<notin> set tr)
        \<and> (\<forall>msg code. http_Error msg code \<notin> set tr)
        \<and> (\<forall>c. Encode_chat c \<notin> set tr))
   \<and> (decode_completion w (Body r') = Inr completionReq
      \<and> callKoboldAPI w (convertOpenAICompletionRequestToKobold completionReq) (bearer_key r') []
          = Some (Inr st', tr')
      \<and> Generations st' \<noteq> []
    \<longrightarrow> (\<exists>k. convertKoboldResponseToOpenAICompletionResponse (uuid_String w) (time_Unix w) st'
              = Inr k
          \<and> completionHandler w r' = Some (Returned, tr' @ [Encode_completion k])
          \<and> (\<forall>name v. Header_Set name v \<notin> set (tr' @ [Encode_completion k])))
        \<and> (\<forall>msg code. http_Error msg code \<notin> set tr')
        \<and> (\<forall>k. Encode_completion k \<notin> set tr'))
   \<and> (chatCompletionHandler w r = Some (e, trace) \<and> Encode_chat c \<in> set trace
      \<longrightarrow> e = Returned
        \<and> (\<exists>tr. trace = tr @ [Header_Set ''Content-Type'' ''application/json'', Encode_chat c]))
   \<and> (completionHandler w r' = Some (e', trace') \<and> Encode_completion k \<in> set trace'
      \<longrightarrow> e' = Returned
        \<and> (\<exists>tr. trace' = tr @ [Encode_completion k])
        \<and> (\<forall>name v. Header_Set name v \<notin> set trace'))"
proof -
  have chat: "(\<exists>c. convertKoboldResponseToOpenAIChatResponse (uuid_String w) (time_Unix w) st = Inr c
          \<and> chatCompletionHandler w r =
              Some (Returned,
                    tr @ [Header_Set ''Content-Type'' ''application/json'', Encode_chat c]))
        \<and> (\<forall>name v. Header_Set name v \<notin> set tr)
        \<and> (\<forall>msg code. http_Error msg code \<notin> set tr)
        \<and> (\<forall>c. Encode_chat c \<notin> set tr)"
    if a: "decode_chat w (Body r) = Inr chatReq
      \<and> callKoboldAPI w (convertOpenAIChatRequestToKobold chatReq) (bearer_key r) []
          = Some (Inr st, tr)
      \<and> Generations st \<noteq> []"
  proof -
    from a have d: "decode_chat w (Body r) = Inr chatReq"
      and call: "callKoboldAPI w (convertOpenAIChatRequestToKobold chatReq) (bearer_key r) []
          = Some (Inr st, tr)"
      and g: "Generations st \<noteq> []"
      by blast+
    from chatCompletionHandler_success [OF d call g] callKoboldAPI_writes_nothing [OF call]
    show ?thesis by blast
  qed
  have completion: "(\<exists>k. convertKoboldResponseToOpenAICompletionResponse (uuid_String w) (time_Unix w) st'
              = Inr k
          \<and> completionHandler w r' = Some (Returned, tr' @ [Encode_completion k])
          \<and> (\<forall>name v. Header_Set name v \<notin> set (tr' @ [Encode_completion k])))
        \<and> (\<forall>msg code. http_Error msg code \<notin> set tr')
        \<and> (\<forall>k. Encode_completion k \<notin> set tr')"
    if a: "decode_completion w (Body r') = Inr completionReq
      \<and> callKoboldAPI w (convertOpenAICompletionRequestToKobold completionReq) (bearer_key r') []
          = Some (Inr st', tr')
      \<and> Generations st' \<noteq> []"
  proof -
    from a have d: "decode_completion w (Body r') = Inr completionReq"
      and call: "callKoboldAPI w (convertOpenAICompletionRequestToKobold completionReq)
        (bearer_key r') [] = Some (Inr st', tr')"
      and g: "Generations st' \<noteq> []"
      by blast+
    from completionHandler_success [OF d call g] obtain k where k:
      "convertKoboldResponseToOpenAICompletionResponse (uuid_String w) (time_Unix w) st' = Inr k"
      "completionHandler w r' = Some (Returned, tr' @ [Encode_completion k])"
      by blast
    note quiet = callKoboldAPI_writes_nothing [OF call]
    then have "\<forall>name v. Header_Set name v \<notin> set (tr' @ [Encode_completion k])"
      by simp
    with k quiet show ?thesis by blast
  qed
  from chat completion body_written_ends [of w r e trace c r' e' trace' k]
  show ?thesis by blast
qed

theorem content_type_only_on_chat_witness:
  "decode_chat (example_world accepted two_polls) ''chat body'' =
     Inr \<lparr>chatReq_Model = ''m'', chatReq_Messages = [\<lparr>Role = ''user'', Content = ''Hi''\<rparr>]\<rparr>
   \<and> decode_completion (example_world accepted two_polls) ''completion body'' =
     Inr (completion_request_with 0 0 0 False None [])
   \<and> callKoboldAPI (example_world accepted two_polls)
       (convertOpenAIChatRequestToKobold
          \<lparr>chatReq_Model = ''m'', chatReq_Messages = [\<lparr>Role = ''user'', Content = ''Hi''\<rparr>]\<rparr>)
       ''k'' [] =
     Some (Inr (status_with True False [generation_with ''a'' ''World'']),
       [POST koboldAPIURL [(''Content-Type'', ''application/json''), (''apikey'', ''k'')]
          (''user: Hi'' @ [CHR 0x0A]),
        Sleep 2, GET (koboldStatusURL @ ''job''),
        Sleep 2, GET (koboldStatusURL @ ''job'')])
   \<and> callKoboldAPI (example_world accepted two_polls)
       (convertOpenAICompletionRequestToKobold (completion_request_with 0 0 0 False None []))
       ''0000000000'' [] =
     Some (Inr (status_with True False [generation_with ''a'' ''World'']),
       [POST koboldAPIURL [(''Content-Type'', ''application/json''), (''apikey'', ''0000000000'')]
          ''Hi'',
        Sleep 2, GET (koboldStatusURL @ ''job''),
        Sleep 2, GET (koboldStatusURL @ ''job'')])
   \<and> Generations (status_with True False [generation_with ''a'' ''World'']) \<noteq> []
   \<and> chatCompletionHandler (example_world accepted two_polls)
       \<lparr>Authorization = ''Bearer k'', Body = ''chat body''\<rparr> =
     Some (Returned,
       [POST koboldAPIURL [(''Content-Type'', ''application/json''), (''apikey'', ''k'')]
          (''user: Hi'' @ [CHR 0x0A]),
        Sleep 2, GET (koboldStatusURL @ ''job''),
        Sleep 2, GET (koboldStatusURL @ ''job'')]
       @ [Header_Set ''Content-Type'' ''application/json'',
          Encode_chat
            \<lparr>chatResp_ID = ''id-1'',
             chatResp_Object = ''chat.completion'',
             chatResp_Created = 1700000000,
             chatResp_Choices =
               [\<lparr>chatChoice_Index = 0,
                 Message = \<lparr>Role = ''assistant'', Content = ''World''\<rparr>,
                 chatChoice_FinishReason = ''stop''\<rparr>],
             chatResp_Usage =
               \<lparr>PromptTokens = 5, CompletionTokens = 5, TotalTokens = 10\<rparr>\<rparr>])
   \<and> completionHandler (example_world accepted two_polls)
       \<lparr>Authorization = '''', Body = ''completion body''\<rparr> =
     Some (Returned,
       [POST koboldAPIURL [(''Content-Type'', ''application/json''), (''apikey'', ''0000000000'')]
          ''Hi'',
        Sleep 2, GET (koboldStatusURL @ ''job''),
        Sleep 2, GET (koboldStatusURL @ ''job'')]
       @ [Encode_completion
            \<lparr>compResp_ID = ''id-1'',
             compResp_Object = ''text.completion'',
             compResp_Created = 1700000000,
             compResp_Model = ''davinci-codex'',
             compResp_Choices =
               [\<lparr>compChoice_Text = ''World'', compChoice_Index = 0,
                 compChoice_Logprobs = None, compChoice_FinishReason = ''stop''\<rparr>],
             compResp_Usage =
               \<lparr>PromptTokens = 0, CompletionTokens = 0, TotalTokens = 0\<rparr>\<rparr>])
   \<and> (\<forall>name v. Header_Set name v \<notin> set
       [POST koboldAPIURL [(''Content-Type'', ''application/json''), (''apikey'', ''0000000000'')]
          ''Hi'',
        Sleep 2, GET (koboldStatusURL @ ''job''),
        Sleep 2, GET (koboldStatusURL @ ''job''),
        Encode_completion
            \<lparr>compResp_ID = ''id-1'',
             compResp_Object = ''text.completion'',
             compResp_Created = 1700000000,
             compResp_Model = ''davinci-codex'',
             compResp_Choices =
               [\<lparr>compChoice_Text = ''World'', compChoice_Index = 0,
                 compChoice_Logprobs = None, compChoice_FinishReason = ''stop''\<rparr>],
             compResp_Usage =
               \<lparr>PromptTokens = 0, CompletionTokens = 0, TotalTokens = 0\<rparr>\<rparr>])"
proof -
  let ?w = "example_world accepted two_polls"
  let ?r = "\<lparr>Authorization = ''Bearer k'', Body = ''chat body''\<rparr>"
  let ?r' = "\<lparr>Authorization = '''', Body = ''completion body''\<rparr>"
  let ?chatReq = "\<lparr>chatReq_Model = ''m'',
                   chatReq_Messages = [\<lparr>Role = ''user'', Content = ''Hi''\<rparr>]\<rparr>"
  let ?completionReq = "completion_request_with 0 0 0 False None []"
  let ?st = "status_with True False [generation_with ''a'' ''World'']"
  let ?c = "\<lparr>chatResp_ID = ''id-1'',
             chatResp_Object = ''chat.completion'',
             chatResp_Created = 1700000000,
             chatResp_Choices =
               [\<lparr>chatChoice_Index = 0,
                 Message = \<lparr>Role = ''assistant'', Content = ''World''\<rparr>,
                 chatChoice_FinishReason = ''stop''\<rparr>],
             chatResp_Usage =
               \<lparr>PromptTokens = 5, CompletionTokens = 5, TotalTokens = 10\<rparr>\<rparr>"
  let ?k = "\<lparr>compResp_ID = ''id-1'',
             compResp_Object = ''text.completion'',
             compResp_Created = 1700000000,
             compResp_Model = ''davinci-codex'',
             compResp_Choices =
               [\<lparr>compChoice_Text = ''World'', compChoice_Index = 0,
                 compChoice_Logprobs = None, compChoice_FinishReason = ''stop''\<rparr>],
             compResp_Usage =
               \<lparr>PromptTokens = 0, CompletionTokens = 0, TotalTokens = 0\<rparr>\<rparr>"
  let ?tr = "[POST koboldAPIURL [(''Content-Type'', ''application/json''), (''apikey'', ''k'')]
          (''user: Hi'' @ [CHR 0x0A]),
        Sleep 2, GET (koboldStatusURL @ ''job''),
        Sleep 2, GET (koboldStatusURL @ ''job'')]"
  let ?tr' = "[POST koboldAPIURL
          [(''Content-Type'', ''application/json''), (''apikey'', ''0000000000'')] ''Hi'',
        Sleep 2, GET (koboldStatusURL @ ''job''),
        Sleep 2, GET (koboldStatusURL @ ''job'')]"
  have key: "bearer_key ?r = ''k''" "bearer_key ?r' = ''0000000000''"
    by (simp_all add: bearer_key_def TrimPrefix_def defaultAPIKey_def)
  have d1: "decode_chat ?w (Body ?r) = Inr ?chatReq"
    and d2: "decode_completion ?w (Body ?r') = Inr ?completionReq"
    by (simp_all add: example_world_def)
  have c1: "callKoboldAPI ?w (convertOpenAIChatRequestToKobold ?chatReq) (bearer_key ?r) []
      = Some (Inr ?st, ?tr)"
    by (simp add: example_call key convertOpenAIChatRequestToKobold_def)
  have c2: "callKoboldAPI ?w (convertOpenAICompletionRequestToKobold ?completionReq)
        (bearer_key ?r') [] = Some (Inr ?st, ?tr')"
    by (simp add: example_call key convertOpenAICompletionRequestToKobold_def
        completion_request_with_def)
  have g: "Generations ?st \<noteq> []"
    by (simp add: status_with_def)
  have ids: "uuid_String ?w = ''id-1''" "time_Unix ?w = 1700000000"
    by (simp_all add: example_world_def)
  have v1: "convertKoboldResponseToOpenAIChatResponse ''id-1'' 1700000000 ?st = Inr ?c"
    by (simp add: chat_conversion_nonempty status_with_def generation_with_def len_def)
  have v2: "convertKoboldResponseToOpenAICompletionResponse ''id-1'' 1700000000 ?st = Inr ?k"
    by (simp add: completion_conversion_nonempty status_with_def generation_with_def)
  note inst = content_type_only_on_chat
    [of ?w ?r ?chatReq ?st ?tr ?r' ?completionReq ?st ?tr']
  from inst d1 c1 g have
    "\<exists>c. convertKoboldResponseToOpenAIChatResponse (uuid_String ?w) (time_Unix ?w) ?st = Inr c
       \<and> chatCompletionHandler ?w ?r =
           Some (Returned, ?tr @ [Header_Set ''Content-Type'' ''application/json'', Encode_chat c])"
    by blast
  with ids v1 have h1: "chatCompletionHandler ?w ?r =
      Some (Returned, ?tr @ [Header_Set ''Content-Type'' ''application/json'', Encode_chat ?c])"
    by auto
  from inst d2 c2 g have
    "\<exists>k. convertKoboldResponseToOpenAICompletionResponse (uuid_String ?w) (time_Unix ?w) ?st
          = Inr k
       \<and> completionHandler ?w ?r' = Some (Returned, ?tr' @ [Encode_completion k])
       \<and> (\<forall>name v. Header_Set name v \<notin> set (?tr' @ [Encode_completion k]))"
    by blast
  with ids v2 have h2: "completionHandler ?w ?r' = Some (Returned, ?tr' @ [Encode_completion ?k])"
    and h3: "\<forall>name v. Header_Set name v \<notin> set (?tr' @ [Encode_completion ?k])"
    by auto
  from d1 d2 c1 c2 have hyps:
    "decode_chat ?w ''chat body'' = Inr ?chatReq"
    "decode_completion ?w ''completion body'' = Inr ?completionReq"
    "callKoboldAPI ?w (convertOpenAIChatRequestToKobold ?chatReq) ''k'' [] = Some (Inr ?st, ?tr)"
    "callKoboldAPI ?w (convertOpenAICompletionRequestToKobold ?completionReq) ''0000000000'' []
       = Some (Inr ?st, ?tr')"
    by (simp_all add: key)
  from h3 have h3': "\<forall>name v. Header_Set name v \<notin> set
       [POST koboldAPIURL [(''Content-Type'', ''application/json''), (''apikey'', ''0000000000'')]
          ''Hi'',
        Sleep 2, GET (koboldStatusURL @ ''job''),
        Sleep 2, GET (koboldStatusURL @ ''job''),
        Encode_completion ?k]"
    by simp
  from hyps g h1 h2 h3' show ?thesis
    by blast
qed

end
